theory Spec2Isabelle
  imports Main "HOL-Library.Word"
begin

section \<open>Errors and outcomes\<close>

text \<open>
  A Go \<open>error\<close> value. \<open>ApiError\<close> is an error handed back by the cloud client;
  \<open>Wrapped msg cause\<close> is what \<open>errors.Wrapf(cause, format, args)\<close> builds from a
  non-nil cause: the formatted message in front of the cause.
\<close>

datatype go_error = ApiError string | Wrapped string go_error

text \<open>
  How a call ends: it returns its \<open>error\<close> result (\<open>None\<close> is \<open>nil\<close>), or the
  goroutine panics with a runtime error.
\<close>

datatype outcome = Returned "go_error option" | Panicked string

section \<open>The node group object\<close>

text \<open>
  \<open>v1alpha1.ScalableNodeGroup\<close> as \<open>Reconcile\<close> reads and writes it: \<open>Spec.ID\<close>,
  \<open>Spec.Replicas\<close> (\<open>*int32\<close>, \<open>nil\<close> is \<open>None\<close>) and \<open>Status.Replicas\<close> (\<open>*int32\<close>).
\<close>

record ScalableNodeGroupSpec =
  ID :: string
  Replicas :: "32 word option"

record ScalableNodeGroupStatus =
  StatusReplicas :: "32 word option"

record ScalableNodeGroup =
  Spec :: ScalableNodeGroupSpec
  Status :: ScalableNodeGroupStatus

section \<open>The auto scaling client\<close>

text \<open>
  The request and response shapes of the two calls \<open>Reconcile\<close> makes. Pointer fields of
  the request structs are options. Of an instance only its presence in the list counts.
\<close>

datatype Instance = Instance (InstanceId: string)

record Group =
  Instances :: "Instance list"

record DescribeAutoScalingGroupsOutput =
  AutoScalingGroups :: "Group list"

record DescribeAutoScalingGroupsInput =
  AutoScalingGroupNames :: "string list"
  MaxRecords :: "64 word option"

record UpdateAutoScalingGroupInput =
  AutoScalingGroupName :: "string option"
  DesiredCapacity :: "64 word option"

datatype api_call =
  DescribeCall DescribeAutoScalingGroupsInput
| UpdateCall UpdateAutoScalingGroupInput

fun is_update :: "api_call \<Rightarrow> bool" where
  "is_update (DescribeCall i) = False"
| "is_update (UpdateCall i) = True"

text \<open>
  \<open>autoscalingiface.AutoScalingAPI\<close>, the two methods used. The client talks to a cloud
  whose state is \<open>'s\<close>: each call gets the state and hands back the next one. A call
  returns \<open>(output, err)\<close>: \<open>Inl err\<close> when \<open>err\<close> is not \<open>nil\<close>, the output otherwise;
  the update's output is dropped by the caller, so only its error is kept.
\<close>

record 's AutoScalingAPI =
  DescribeAutoScalingGroups ::
    "DescribeAutoScalingGroupsInput \<Rightarrow> 's \<Rightarrow> (go_error + DescribeAutoScalingGroupsOutput) \<times> 's"
  UpdateAutoScalingGroup ::
    "UpdateAutoScalingGroupInput \<Rightarrow> 's \<Rightarrow> go_error option \<times> 's"

section \<open>Reconcile\<close>

text \<open>
  \<open>int32(len(xs))\<close>: the length, an \<open>int\<close>, cut to its low 32 bits; and
  \<open>int64(r)\<close> of an \<open>int32\<close>, which extends the sign.
\<close>

definition int32_of_len :: "'a list \<Rightarrow> 32 word" where
  "int32_of_len xs = word_of_nat (length xs)"

definition int64_of_int32 :: "32 word \<Rightarrow> 64 word" where
  "int64_of_int32 r = scast r"

definition describe_input :: "ScalableNodeGroup \<Rightarrow> DescribeAutoScalingGroupsInput" where
  "describe_input asg =
     \<lparr>AutoScalingGroupNames = [ID (Spec asg)], MaxRecords = Some 1\<rparr>"

definition update_input :: "ScalableNodeGroup \<Rightarrow> 32 word \<Rightarrow> UpdateAutoScalingGroupInput" where
  "update_input asg r =
     \<lparr>AutoScalingGroupName = Some (ID (Spec asg)), DesiredCapacity = Some (int64_of_int32 r)\<rparr>"

definition describe_failure :: "ScalableNodeGroup \<Rightarrow> go_error \<Rightarrow> go_error" where
  "describe_failure asg err =
     Wrapped (''unable to get instance count from auto scaling group '' @ ID (Spec asg)) err"

text \<open>
  What one pass leaves behind: the node group object, the cloud's state, the calls made
  on the client in order, and how the pass ended.
\<close>

record 's pass =
  group :: ScalableNodeGroup
  cloud :: 's
  calls :: "api_call list"
  ending :: outcome

text \<open>The status write \<open>asg.Status.Replicas = ptr.Int32(n)\<close>.\<close>

definition set_observed :: "ScalableNodeGroup \<Rightarrow> 32 word \<Rightarrow> ScalableNodeGroup" where
  "set_observed asg n = asg\<lparr>Status := (Status asg)\<lparr>StatusReplicas := Some n\<rparr>\<rparr>"

text \<open>
  \<open>AutoScalingGroup.Reconcile\<close>. The receiver is the embedded node group and the client.
  Indexing \<open>AutoScalingGroups[0]\<close> of an empty slice is a runtime panic, before the status
  is written.
\<close>

definition Reconcile :: "'s AutoScalingAPI \<Rightarrow> ScalableNodeGroup \<Rightarrow> 's \<Rightarrow> 's pass" where
  "Reconcile client asg s =
    (case DescribeAutoScalingGroups client (describe_input asg) s of
       (Inl err, s1) \<Rightarrow>
         \<lparr>group = asg, cloud = s1, calls = [DescribeCall (describe_input asg)],
          ending = Returned (Some (describe_failure asg err))\<rparr>
     | (Inr out, s1) \<Rightarrow>
        (case AutoScalingGroups out of
           [] \<Rightarrow>
             \<lparr>group = asg, cloud = s1, calls = [DescribeCall (describe_input asg)],
              ending = Panicked ''runtime error: index out of range [0] with length 0''\<rparr>
         | g # rest \<Rightarrow>
            (let asg1 = set_observed asg (int32_of_len (Instances g))
             in case Replicas (Spec asg1) of
                  None \<Rightarrow>
                    \<lparr>group = asg1, cloud = s1, calls = [DescribeCall (describe_input asg)],
                     ending = Returned None\<rparr>
                | Some r \<Rightarrow>
                    if StatusReplicas (Status asg1) = Some r
                    then \<lparr>group = asg1, cloud = s1, calls = [DescribeCall (describe_input asg)],
                          ending = Returned None\<rparr>
                    else (case UpdateAutoScalingGroup client (update_input asg1 r) s1 of
                            (err, s2) \<Rightarrow>
                              \<lparr>group = asg1, cloud = s2,
                               calls = [DescribeCall (describe_input asg), UpdateCall (update_input asg1 r)],
                               ending = Returned err\<rparr>))))"

text \<open>
  The caller's loop: \<open>n\<close> further passes on the same object after a pass \<open>p\<close>, each
  starting from the object and the cloud state the previous one left. The calls of all
  passes are collected; the ending is the last pass's.
\<close>

primrec repeat_Reconcile :: "nat \<Rightarrow> 's AutoScalingAPI \<Rightarrow> 's pass \<Rightarrow> 's pass" where
  "repeat_Reconcile 0 client p = p"
| "repeat_Reconcile (Suc n) client p =
     (let q = Reconcile client (group p) (cloud p)
      in repeat_Reconcile n client (q\<lparr>calls := calls p @ calls q\<rparr>))"

text \<open>
  A test double of the client: it answers every describe with \<open>answer\<close> and leaves the
  cloud as it is, and answers every update with \<open>update_err\<close>; its state counts the
  updates it has received.
\<close>

definition fake_client ::
  "(go_error + DescribeAutoScalingGroupsOutput) \<Rightarrow> go_error option \<Rightarrow> nat AutoScalingAPI" where
  "fake_client answer update_err =
     \<lparr>DescribeAutoScalingGroups = (\<lambda>i s. (answer, s)),
      UpdateAutoScalingGroup = (\<lambda>i s. (update_err, Suc s))\<rparr>"

definition group_of_size :: "nat \<Rightarrow> DescribeAutoScalingGroupsOutput" where
  "group_of_size n = \<lparr>AutoScalingGroups = [\<lparr>Instances = replicate n (Instance ''i'')\<rparr>]\<rparr>"

definition node_group :: "string \<Rightarrow> 32 word option \<Rightarrow> 32 word option \<Rightarrow> ScalableNodeGroup" where
  "node_group name desired observed =
     \<lparr>Spec = \<lparr>ID = name, Replicas = desired\<rparr>, Status = \<lparr>StatusReplicas = observed\<rparr>\<rparr>"

section \<open>The provider factory\<close>

text \<open>
  Pointers are addresses. The factory holds one pointer to each sub-provider; a capacity
  handle holds the provisioner it was made for and the same five pointers.
\<close>

type_synonym ref = nat

record Factory =
  nodeFactory :: ref
  launchTemplateProvider :: ref
  subnetProvider :: ref
  instanceTypeProvider :: ref
  instanceProvider :: ref

record Capacity =
  provisioner :: ref
  nodeFactory :: ref
  instanceProvider :: ref
  launchTemplateProvider :: ref
  instanceTypeProvider :: ref
  subnetProvider :: ref

text \<open>
  The process around the factory: the capacity handles allocated so far, the next free
  address, and the requests sent to the cloud so far (of any request type \<open>'r\<close>).
\<close>

record 'r process =
  handles :: "ref \<Rightarrow> Capacity option"
  next_free :: ref
  requests :: "'r list"

text \<open>
  \<open>Factory.CapacityFor\<close>: \<open>&Capacity{...}\<close> allocates one new handle, fills it from the
  factory's fields and returns its address.
\<close>

definition CapacityFor :: "Factory \<Rightarrow> ref \<Rightarrow> 'r process \<Rightarrow> ref \<times> 'r process" where
  "CapacityFor f prov w =
     (next_free w,
      w\<lparr>handles := (handles w)(next_free w :=
           Some \<lparr>provisioner = prov,
                 nodeFactory = Factory.nodeFactory f,
                 instanceProvider = Factory.instanceProvider f,
                 launchTemplateProvider = Factory.launchTemplateProvider f,
                 instanceTypeProvider = Factory.instanceTypeProvider f,
                 subnetProvider = Factory.subnetProvider f\<rparr>),
        next_free := Suc (next_free w)\<rparr>)"

text \<open>The sub-provider pointers of a handle, and of the factory, in one fixed order.\<close>

definition capacity_providers :: "Capacity \<Rightarrow> ref list" where
  "capacity_providers c =
     [Capacity.nodeFactory c, Capacity.launchTemplateProvider c, Capacity.subnetProvider c,
      Capacity.instanceTypeProvider c, Capacity.instanceProvider c]"

definition factory_providers :: "Factory \<Rightarrow> ref list" where
  "factory_providers f =
     [Factory.nodeFactory f, Factory.launchTemplateProvider f, Factory.subnetProvider f,
      Factory.instanceTypeProvider f, Factory.instanceProvider f]"

section \<open>The session\<close>

text \<open>
  Of \<open>session.Session\<close>: the configured region (\<open>*string\<close>) and the user-agent strings
  its build handlers add to every request.
\<close>

record Config =
  Region :: "string option"

record Session =
  Config :: Config
  BuildHandlers :: "string list"

text \<open>
  How a start-up step ends: with its result, or in a panic that carries a message and the
  error that caused it.
\<close>

datatype 'a started = Ready 'a | Aborted string go_error

text \<open>
  Modelled from the spec: \<open>log.PanicIfError\<close> (package \<open>pkg/utils/log\<close>) is not among the
  sources. By the spec a failed region lookup is fatal to startup and aborts: the helper
  panics with the message and the error when the error is not \<open>nil\<close>, and does
  nothing otherwise. \<open>Some\<close> is the panic.
\<close>

definition PanicIfError :: "go_error option \<Rightarrow> string \<Rightarrow> (string \<times> go_error) option" where
  "PanicIfError err msg =
     (case err of None \<Rightarrow> None | Some e \<Rightarrow> Some (msg, e))"

text \<open>
  \<open>withRegion\<close>. The instance-metadata client's \<open>Region()\<close> is a parameter: it returns
  \<open>(region, err)\<close> for the session.
\<close>

definition withRegion :: "(Session \<Rightarrow> string \<times> go_error option) \<Rightarrow> Session \<Rightarrow> Session started" where
  "withRegion metadata_Region sess =
     (case metadata_Region sess of
        (region, err) \<Rightarrow>
          (case PanicIfError err ''failed to call the metadata server's region API'' of
             Some (msg, e) \<Rightarrow> Aborted msg e
           | None \<Rightarrow> Ready (sess\<lparr>Config := (Config sess)\<lparr>Region := Some region\<rparr>\<rparr>)))"

text \<open>\<open>withUserAgent\<close>; \<open>project.Version\<close> is a parameter.\<close>

definition withUserAgent :: "string \<Rightarrow> Session \<Rightarrow> Session" where
  "withUserAgent version sess =
     sess\<lparr>BuildHandlers := BuildHandlers sess @ [''karpenter.sh-'' @ version]\<rparr>"

text \<open>
  The session of \<open>NewFactory\<close>: \<open>withUserAgent(withRegion(sess))\<close> on the session that
  \<open>session.Must\<close> handed over. A panic inside \<open>withRegion\<close> ends \<open>NewFactory\<close>.
\<close>

definition NewFactory_session ::
  "(Session \<Rightarrow> string \<times> go_error option) \<Rightarrow> string \<Rightarrow> Session \<Rightarrow> Session started" where
  "NewFactory_session metadata_Region version sess =
     (case withRegion metadata_Region sess of
        Aborted msg e \<Rightarrow> Aborted msg e
      | Ready sess1 \<Rightarrow> Ready (withUserAgent version sess1))"

section \<open>Facts about one pass\<close>

lemma sint_int64_of_int32: "sint (int64_of_int32 r) = sint r"
  unfolding int64_of_int32_def by (rule sint_up_scast) (simp add: is_up)

lemma int32_of_len_exact:
  assumes "length xs < 2 ^ 31"
  shows "sint (int32_of_len xs) = int (length xs)"
proof -
  have "int (length xs) < 2 ^ 31" using assms by (metis of_nat_less_iff of_nat_numeral of_nat_power)
  then show ?thesis
    unfolding int32_of_len_def
    by (simp add: signed_of_nat signed_take_bit_int_eq_self)
qed

lemma set_observed_simps:
  "Spec (set_observed asg n) = Spec asg"
  "StatusReplicas (Status (set_observed asg n)) = Some n"
  "describe_input (set_observed asg n) = describe_input asg"
  "update_input (set_observed asg n) r = update_input asg r"
  "set_observed (set_observed asg n) m = set_observed asg m"
  by (simp_all add: set_observed_def describe_input_def update_input_def)

lemma Reconcile_describe_error:
  assumes "DescribeAutoScalingGroups client (describe_input asg) s = (Inl err, s1)"
  shows "Reconcile client asg s =
     \<lparr>group = asg, cloud = s1, calls = [DescribeCall (describe_input asg)],
      ending = Returned (Some (describe_failure asg err))\<rparr>"
  using assms by (simp add: Reconcile_def)

lemma Reconcile_no_group:
  assumes "DescribeAutoScalingGroups client (describe_input asg) s = (Inr out, s1)"
    and "AutoScalingGroups out = []"
  shows "Reconcile client asg s =
     \<lparr>group = asg, cloud = s1, calls = [DescribeCall (describe_input asg)],
      ending = Panicked ''runtime error: index out of range [0] with length 0''\<rparr>"
  using assms by (simp add: Reconcile_def)

lemma Reconcile_noop:
  assumes "DescribeAutoScalingGroups client (describe_input asg) s = (Inr out, s1)"
    and "AutoScalingGroups out = g # rest"
    and "Replicas (Spec asg) = None \<or> Replicas (Spec asg) = Some (int32_of_len (Instances g))"
  shows "Reconcile client asg s =
     \<lparr>group = set_observed asg (int32_of_len (Instances g)), cloud = s1,
      calls = [DescribeCall (describe_input asg)], ending = Returned None\<rparr>"
  using assms by (auto simp add: Reconcile_def Let_def set_observed_simps)

lemma Reconcile_update:
  assumes "DescribeAutoScalingGroups client (describe_input asg) s = (Inr out, s1)"
    and "AutoScalingGroups out = g # rest"
    and "Replicas (Spec asg) = Some d"
    and "int32_of_len (Instances g) \<noteq> d"
    and "UpdateAutoScalingGroup client (update_input asg d) s1 = (err, s2)"
  shows "Reconcile client asg s =
     \<lparr>group = set_observed asg (int32_of_len (Instances g)), cloud = s2,
      calls = [DescribeCall (describe_input asg), UpdateCall (update_input asg d)],
      ending = Returned err\<rparr>"
  using assms by (simp add: Reconcile_def Let_def set_observed_simps)

lemma repeat_Reconcile_converged:
  assumes d: "DescribeAutoScalingGroups client (describe_input asg) s = (Inr out, s)"
    and g: "AutoScalingGroups out = g # rest"
    and c: "Replicas (Spec asg) = None \<or> Replicas (Spec asg) = Some (int32_of_len (Instances g))"
    and p: "group p = set_observed asg (int32_of_len (Instances g))" "cloud p = s"
      "ending p = Returned None" "filter is_update (calls p) = []"
  shows "group (repeat_Reconcile n client p) = set_observed asg (int32_of_len (Instances g))
    \<and> cloud (repeat_Reconcile n client p) = s
    \<and> ending (repeat_Reconcile n client p) = Returned None
    \<and> filter is_update (calls (repeat_Reconcile n client p)) = []"
  using p
proof (induction n arbitrary: p)
  case 0
  then show ?case by simp
next
  case (Suc n)
  let ?a = "set_observed asg (int32_of_len (Instances g))"
  have d': "DescribeAutoScalingGroups client (describe_input ?a) s = (Inr out, s)"
    using d by (simp add: set_observed_simps)
  have c': "Replicas (Spec ?a) = None \<or> Replicas (Spec ?a) = Some (int32_of_len (Instances g))"
    using c by (simp add: set_observed_simps)
  have q: "Reconcile client ?a s =
      \<lparr>group = ?a, cloud = s, calls = [DescribeCall (describe_input asg)], ending = Returned None\<rparr>"
    using Reconcile_noop [OF d' g c'] by (simp add: set_observed_simps)
  let ?q = "(Reconcile client ?a s)\<lparr>calls := calls p @ calls (Reconcile client ?a s)\<rparr>"
  have "group ?q = ?a" "cloud ?q = s" "ending ?q = Returned None"
    "filter is_update (calls ?q) = []"
    using Suc.prems by (simp_all add: q)
  from Suc.IH [OF this] show ?case
    using Suc.prems by (simp add: Let_def)
qed

section \<open>Properties of Reconcile\<close>

text \<open>
  C1. When the desired replica count is set and differs from the count the describe call
  reports, the pass issues exactly one update call, for this node group, asking for the
  desired count (the \<open>int64\<close> of the same number), and the status holds the count that
  was observed before the update, not the desired one. The call reaches the client once:
  the cloud state after the pass and the pass's result are those of one application of
  the client's update, with that request, to the state the describe call left. The
  observed count is the \<open>int32\<close> the code takes from the length of the first group's
  instance list (\<open>int32_of_len_exact\<close>: below \<open>2^31\<close> instances it is that length).
\<close>

theorem Reconcile_issues_one_update:
  assumes "DescribeAutoScalingGroups client (describe_input asg) s = (Inr out, s1)"
    and "AutoScalingGroups out = g # rest"
    and "Replicas (Spec asg) = Some d"
    and "int32_of_len (Instances g) \<noteq> d"
  shows "filter is_update (calls (Reconcile client asg s)) =
      [UpdateCall \<lparr>AutoScalingGroupName = Some (ID (Spec asg)),
                   DesiredCapacity = Some (int64_of_int32 d)\<rparr>]
    \<and> sint (int64_of_int32 d) = sint d
    \<and> StatusReplicas (Status (group (Reconcile client asg s))) = Some (int32_of_len (Instances g))
    \<and> StatusReplicas (Status (group (Reconcile client asg s))) \<noteq> Some d
    \<and> cloud (Reconcile client asg s) =
        snd (UpdateAutoScalingGroup client
              \<lparr>AutoScalingGroupName = Some (ID (Spec asg)),
               DesiredCapacity = Some (int64_of_int32 d)\<rparr> s1)
    \<and> ending (Reconcile client asg s) =
        Returned (fst (UpdateAutoScalingGroup client
              \<lparr>AutoScalingGroupName = Some (ID (Spec asg)),
               DesiredCapacity = Some (int64_of_int32 d)\<rparr> s1))"
proof -
  obtain err s2 where u: "UpdateAutoScalingGroup client (update_input asg d) s1 = (err, s2)"
    by (cases "UpdateAutoScalingGroup client (update_input asg d) s1")
  have u': "UpdateAutoScalingGroup client
      \<lparr>AutoScalingGroupName = Some (ID (Spec asg)),
       DesiredCapacity = Some (int64_of_int32 d)\<rparr> s1 = (err, s2)"
    using u by (simp add: update_input_def)
  show ?thesis
    using assms(4)
    by (simp add: Reconcile_update [OF assms u] u' set_observed_simps sint_int64_of_int32
        update_input_def)
qed

theorem Reconcile_issues_one_update_witness:
  "filter is_update (calls (Reconcile (fake_client (Inr (group_of_size 3)) None)
       (node_group ''ng'' (Some 5) None) 0)) =
     [UpdateCall \<lparr>AutoScalingGroupName = Some ''ng'', DesiredCapacity = Some 5\<rparr>]
   \<and> StatusReplicas (Status (group (Reconcile (fake_client (Inr (group_of_size 3)) None)
       (node_group ''ng'' (Some 5) None) 0))) = Some 3
   \<and> cloud (Reconcile (fake_client (Inr (group_of_size 3)) None)
       (node_group ''ng'' (Some 5) None) 0) = Suc 0
   \<and> ending (Reconcile (fake_client (Inr (group_of_size 3)) None)
       (node_group ''ng'' (Some 5) None) 0) = Returned None"
proof -
  let ?c = "fake_client (Inr (group_of_size 3)) None"
  let ?a = "node_group ''ng'' (Some 5) None"
  let ?g = "\<lparr>Instances = replicate 3 (Instance ''i'')\<rparr>"
  have h1: "DescribeAutoScalingGroups ?c (describe_input ?a) 0 = (Inr (group_of_size 3), 0)"
    by (simp add: fake_client_def)
  have h2: "AutoScalingGroups (group_of_size 3) = ?g # []"
    by (simp add: group_of_size_def)
  have h3: "Replicas (Spec ?a) = Some 5"
    by (simp add: node_group_def)
  have h4: "int32_of_len (Instances ?g) \<noteq> 5"
    by (simp add: int32_of_len_def)
  from Reconcile_issues_one_update [OF h1 h2 h3 h4] show ?thesis
    by (simp add: node_group_def int32_of_len_def int64_of_int32_def fake_client_def)
qed

text \<open>
  C2. A describe call that succeeds with zero groups: the pass does not return an error,
  it panics on \<open>AutoScalingGroups[0]\<close>.
\<close>

theorem Reconcile_zero_results_panics:
  "ending (Reconcile (fake_client (Inr \<lparr>AutoScalingGroups = []\<rparr>) None)
       (node_group ''ng'' (Some 5) (Some 3)) 0)
     = Panicked ''runtime error: index out of range [0] with length 0''"
  by (simp add: Reconcile_def fake_client_def)

text \<open>
  C3. When the describe call returns an error, the pass returns that error wrapped with
  the message that names the node group's ID, the node group object (and so
  \<open>Status.Replicas\<close>) is exactly what it was, and no update call is made.
\<close>

theorem Reconcile_describe_error_wrapped:
  assumes "DescribeAutoScalingGroups client (describe_input asg) s = (Inl err, s1)"
  shows "ending (Reconcile client asg s) =
      Returned (Some (Wrapped
        (''unable to get instance count from auto scaling group '' @ ID (Spec asg)) err))
    \<and> group (Reconcile client asg s) = asg
    \<and> filter is_update (calls (Reconcile client asg s)) = []"
  by (simp add: Reconcile_describe_error [OF assms] describe_failure_def)

theorem Reconcile_describe_error_wrapped_witness:
  "ending (Reconcile (fake_client (Inl (ApiError ''not found'')) None)
       (node_group ''ng'' (Some 5) (Some 3)) 0) =
     Returned (Some (Wrapped ''unable to get instance count from auto scaling group ng''
       (ApiError ''not found'')))
   \<and> StatusReplicas (Status (group (Reconcile (fake_client (Inl (ApiError ''not found'')) None)
       (node_group ''ng'' (Some 5) (Some 3)) 0))) = Some 3"
proof -
  let ?c = "fake_client (Inl (ApiError ''not found'')) None"
  let ?a = "node_group ''ng'' (Some 5) (Some 3)"
  have h: "DescribeAutoScalingGroups ?c (describe_input ?a) 0 = (Inl (ApiError ''not found''), 0)"
    by (simp add: fake_client_def)
  from Reconcile_describe_error_wrapped [OF h] show ?thesis
    by (simp add: node_group_def)
qed

text \<open>
  C4. When the describe call succeeds and reports a group, \<open>Status.Replicas\<close> after the
  pass is the instance count of that group, whatever the desired count is: unset, equal
  or different.
\<close>

theorem Reconcile_status_is_observed:
  assumes "DescribeAutoScalingGroups client (describe_input asg) s = (Inr out, s1)"
    and "AutoScalingGroups out = g # rest"
  shows "StatusReplicas (Status (group (Reconcile client asg s))) = Some (int32_of_len (Instances g))"
proof (cases "Replicas (Spec asg) = None \<or> Replicas (Spec asg) = Some (int32_of_len (Instances g))")
  case True
  show ?thesis by (simp add: Reconcile_noop [OF assms True] set_observed_simps)
next
  case False
  then obtain d where d: "Replicas (Spec asg) = Some d" "int32_of_len (Instances g) \<noteq> d"
    by auto
  obtain err s2 where u: "UpdateAutoScalingGroup client (update_input asg d) s1 = (err, s2)"
    by (cases "UpdateAutoScalingGroup client (update_input asg d) s1")
  show ?thesis by (simp add: Reconcile_update [OF assms d u] set_observed_simps)
qed

theorem Reconcile_status_is_observed_witness:
  "StatusReplicas (Status (group (Reconcile (fake_client (Inr (group_of_size 7)) None)
       (node_group ''ng'' None (Some 2)) 0))) = Some 7"
proof -
  let ?c = "fake_client (Inr (group_of_size 7)) None"
  let ?a = "node_group ''ng'' None (Some 2)"
  let ?g = "\<lparr>Instances = replicate 7 (Instance ''i'')\<rparr>"
  have h1: "DescribeAutoScalingGroups ?c (describe_input ?a) 0 = (Inr (group_of_size 7), 0)"
    by (simp add: fake_client_def)
  have h2: "AutoScalingGroups (group_of_size 7) = ?g # []"
    by (simp add: group_of_size_def)
  from Reconcile_status_is_observed [OF h1 h2] show ?thesis
    by (simp add: int32_of_len_def)
qed

text \<open>
  C5. When the desired count is unset or equals the count the describe call reports, the
  pass makes no update call and returns \<open>nil\<close>; and with a describe call that leaves the
  cloud as it is, any number \<open>n\<close> of further passes make no update call, return \<open>nil\<close>,
  and leave the status as the first pass set it.
\<close>

theorem Reconcile_converged_idempotent:
  assumes "DescribeAutoScalingGroups client (describe_input asg) s = (Inr out, s)"
    and "AutoScalingGroups out = g # rest"
    and "Replicas (Spec asg) = None \<or> Replicas (Spec asg) = Some (int32_of_len (Instances g))"
  shows "filter is_update (calls (Reconcile client asg s)) = []
    \<and> ending (Reconcile client asg s) = Returned None
    \<and> filter is_update (calls (repeat_Reconcile n client (Reconcile client asg s))) = []
    \<and> ending (repeat_Reconcile n client (Reconcile client asg s)) = Returned None
    \<and> Status (group (repeat_Reconcile n client (Reconcile client asg s)))
        = Status (group (Reconcile client asg s))
    \<and> StatusReplicas (Status (group (repeat_Reconcile n client (Reconcile client asg s))))
        = Some (int32_of_len (Instances g))"
proof -
  let ?p = "Reconcile client asg s"
  have p: "?p = \<lparr>group = set_observed asg (int32_of_len (Instances g)), cloud = s,
      calls = [DescribeCall (describe_input asg)], ending = Returned None\<rparr>"
    by (rule Reconcile_noop [OF assms])
  have "group ?p = set_observed asg (int32_of_len (Instances g))" "cloud ?p = s"
    "ending ?p = Returned None" "filter is_update (calls ?p) = []"
    by (simp_all add: p)
  from repeat_Reconcile_converged [OF assms this, of n] show ?thesis
    by (simp add: p set_observed_simps)
qed

theorem Reconcile_converged_idempotent_witness:
  "filter is_update (calls (repeat_Reconcile 4 (fake_client (Inr (group_of_size 5)) None)
       (Reconcile (fake_client (Inr (group_of_size 5)) None) (node_group ''ng'' (Some 5) None) 0))) = []
   \<and> StatusReplicas (Status (group (repeat_Reconcile 4 (fake_client (Inr (group_of_size 5)) None)
       (Reconcile (fake_client (Inr (group_of_size 5)) None) (node_group ''ng'' (Some 5) None) 0))))
      = Some 5"
proof -
  let ?c = "fake_client (Inr (group_of_size 5)) None"
  let ?a = "node_group ''ng'' (Some 5) None"
  let ?g = "\<lparr>Instances = replicate 5 (Instance ''i'')\<rparr>"
  have h1: "DescribeAutoScalingGroups ?c (describe_input ?a) 0 = (Inr (group_of_size 5), 0)"
    by (simp add: fake_client_def)
  have h2: "AutoScalingGroups (group_of_size 5) = ?g # []"
    by (simp add: group_of_size_def)
  have h3: "Replicas (Spec ?a) = None \<or> Replicas (Spec ?a) = Some (int32_of_len (Instances ?g))"
    by (simp add: node_group_def int32_of_len_def)
  from Reconcile_converged_idempotent [OF h1 h2 h3, of 4]
  have "filter is_update (calls (repeat_Reconcile 4 ?c (Reconcile ?c ?a 0))) = []"
    and "StatusReplicas (Status (group (repeat_Reconcile 4 ?c (Reconcile ?c ?a 0))))
      = Some (int32_of_len (Instances ?g))"
    by blast+
  then show ?thesis
    by (simp add: int32_of_len_def)
qed

text \<open>
  C6. For every client, node group and cloud state, one pass makes at most one update
  call, however it ends. On the client's side: the cloud state after the pass is the one
  the describe call left, or that state after one application of the client's update.
\<close>

theorem Reconcile_at_most_one_update:
  "length (filter is_update (calls (Reconcile client asg s))) \<le> 1
   \<and> (cloud (Reconcile client asg s) = snd (DescribeAutoScalingGroups client (describe_input asg) s)
      \<or> (\<exists>u. cloud (Reconcile client asg s) =
            snd (UpdateAutoScalingGroup client u
                  (snd (DescribeAutoScalingGroups client (describe_input asg) s)))))"
proof (cases "DescribeAutoScalingGroups client (describe_input asg) s")
  case (Pair r s1)
  show ?thesis
  proof (cases r)
    case (Inl err)
    with Pair show ?thesis by (simp add: Reconcile_describe_error)
  next
    case (Inr out)
    note d = Pair [unfolded Inr]
    show ?thesis
    proof (cases "AutoScalingGroups out")
      case Nil
      show ?thesis by (simp add: Reconcile_no_group [OF d Nil] d)
    next
      case (Cons g rest)
      show ?thesis
      proof (cases "Replicas (Spec asg) = None \<or> Replicas (Spec asg) = Some (int32_of_len (Instances g))")
        case True
        show ?thesis by (simp add: Reconcile_noop [OF d Cons True] d)
      next
        case False
        then obtain r' where r: "Replicas (Spec asg) = Some r'" "int32_of_len (Instances g) \<noteq> r'"
          by auto
        obtain err s2 where u: "UpdateAutoScalingGroup client (update_input asg r') s1 = (err, s2)"
          by (cases "UpdateAutoScalingGroup client (update_input asg r') s1")
        have "cloud (Reconcile client asg s) =
            snd (UpdateAutoScalingGroup client (update_input asg r') s1)"
          by (simp add: Reconcile_update [OF d Cons r u] u)
        then show ?thesis
          by (auto simp add: Reconcile_update [OF d Cons r u] d)
      qed
    qed
  qed
qed

text \<open>
  C7. An update call that fails: the pass makes the one update call and returns its error
  as it is, not wrapped, while the same error from the describe call comes back wrapped
  with the node group's ID.
\<close>

theorem Reconcile_update_error_not_wrapped:
  "ending (Reconcile (fake_client (Inr (group_of_size 3)) (Some (ApiError ''ValidationError'')))
       (node_group ''ng'' (Some 5) None) 0)
     = Returned (Some (ApiError ''ValidationError''))
   \<and> length (filter is_update (calls (Reconcile
       (fake_client (Inr (group_of_size 3)) (Some (ApiError ''ValidationError'')))
       (node_group ''ng'' (Some 5) None) 0))) = 1
   \<and> ending (Reconcile (fake_client (Inl (ApiError ''ValidationError'')) None)
       (node_group ''ng'' (Some 5) None) 0)
     = Returned (Some (Wrapped ''unable to get instance count from auto scaling group ng''
         (ApiError ''ValidationError'')))"
  by (simp add: Reconcile_def Let_def fake_client_def group_of_size_def node_group_def
      int32_of_len_def describe_input_def update_input_def describe_failure_def set_observed_def)

text \<open>
  C10. When the describe call succeeds and the update call then fails, the pass returns
  the update's error and \<open>Status.Replicas\<close> holds the count just observed: the status
  write is not undone.
\<close>

theorem Reconcile_update_failure_keeps_observed:
  assumes "DescribeAutoScalingGroups client (describe_input asg) s = (Inr out, s1)"
    and "AutoScalingGroups out = g # rest"
    and "Replicas (Spec asg) = Some d"
    and "int32_of_len (Instances g) \<noteq> d"
    and "UpdateAutoScalingGroup client (update_input asg d) s1 = (Some e, s2)"
  shows "ending (Reconcile client asg s) = Returned (Some e)
    \<and> StatusReplicas (Status (group (Reconcile client asg s))) = Some (int32_of_len (Instances g))"
  by (simp add: Reconcile_update [OF assms] set_observed_simps)

theorem Reconcile_update_failure_keeps_observed_witness:
  "ending (Reconcile (fake_client (Inr (group_of_size 3)) (Some (ApiError ''throttled'')))
       (node_group ''ng'' (Some 5) (Some 9)) 0) = Returned (Some (ApiError ''throttled''))
   \<and> StatusReplicas (Status (group (Reconcile
       (fake_client (Inr (group_of_size 3)) (Some (ApiError ''throttled'')))
       (node_group ''ng'' (Some 5) (Some 9)) 0))) = Some 3"
proof -
  let ?c = "fake_client (Inr (group_of_size 3)) (Some (ApiError ''throttled''))"
  let ?a = "node_group ''ng'' (Some 5) (Some 9)"
  let ?g = "\<lparr>Instances = replicate 3 (Instance ''i'')\<rparr>"
  have h1: "DescribeAutoScalingGroups ?c (describe_input ?a) 0 = (Inr (group_of_size 3), 0)"
    by (simp add: fake_client_def)
  have h2: "AutoScalingGroups (group_of_size 3) = ?g # []"
    by (simp add: group_of_size_def)
  have h3: "Replicas (Spec ?a) = Some 5"
    by (simp add: node_group_def)
  have h4: "int32_of_len (Instances ?g) \<noteq> 5"
    by (simp add: int32_of_len_def)
  have h5: "UpdateAutoScalingGroup ?c (update_input ?a 5) 0 = (Some (ApiError ''throttled''), Suc 0)"
    by (simp add: fake_client_def)
  from Reconcile_update_failure_keeps_observed [OF h1 h2 h3 h4 h5] show ?thesis
    by (simp add: int32_of_len_def)
qed

section \<open>Properties of the factory and the session\<close>

text \<open>
  C8. \<open>CapacityFor\<close> sends no request to the cloud, and the handle it returns is for the
  given provisioner and holds exactly the factory's five sub-provider pointers. Two
  handles made one after the other from the same factory are different objects, both
  still hold the factory's sub-provider pointers, and still no request has been sent.
\<close>

theorem CapacityFor_shares_providers:
  "requests (snd (CapacityFor f prov w)) = requests w
   \<and> map_option capacity_providers (handles (snd (CapacityFor f prov w)) (fst (CapacityFor f prov w)))
       = Some (factory_providers f)
   \<and> map_option provisioner (handles (snd (CapacityFor f prov w)) (fst (CapacityFor f prov w)))
       = Some prov
   \<and> (case CapacityFor f prov w of (h1, w1) \<Rightarrow>
        case CapacityFor f prov' w1 of (h2, w2) \<Rightarrow>
          h1 \<noteq> h2
          \<and> requests w2 = requests w
          \<and> map_option capacity_providers (handles w2 h1) = Some (factory_providers f)
          \<and> map_option capacity_providers (handles w2 h2) = Some (factory_providers f)
          \<and> map_option provisioner (handles w2 h1) = Some prov
          \<and> map_option provisioner (handles w2 h2) = Some prov')"
  by (simp add: CapacityFor_def capacity_providers_def factory_providers_def)

text \<open>
  C9. When the metadata lookup of the region returns an error, \<open>withRegion\<close> panics, and
  so does the construction of the factory's session: no session with some other region
  comes out. When the lookup succeeds, the session's region is the one it returned, also
  after \<open>withUserAgent\<close>.
\<close>

theorem withRegion_fatal_or_sets_region:
  "(metadata_Region sess = (region, Some e) \<longrightarrow>
      withRegion metadata_Region sess =
        Aborted ''failed to call the metadata server's region API'' e
      \<and> NewFactory_session metadata_Region version sess =
        Aborted ''failed to call the metadata server's region API'' e)
   \<and> (metadata_Region sess = (region, None) \<longrightarrow>
      withRegion metadata_Region sess = Ready (sess\<lparr>Config := (Config sess)\<lparr>Region := Some region\<rparr>\<rparr>)
      \<and> (\<exists>s'. NewFactory_session metadata_Region version sess = Ready s'
            \<and> Region (Config s') = Some region))"
  by (simp add: withRegion_def NewFactory_session_def PanicIfError_def withUserAgent_def)

theorem withRegion_fatal_or_sets_region_witness:
  "withRegion (\<lambda>s. ('''', Some (ApiError ''timeout''))) \<lparr>Config = \<lparr>Region = Some ''us-east-1''\<rparr>, BuildHandlers = []\<rparr>
     = Aborted ''failed to call the metadata server's region API'' (ApiError ''timeout'')
   \<and> withRegion (\<lambda>s. (''eu-west-1'', None)) \<lparr>Config = \<lparr>Region = None\<rparr>, BuildHandlers = []\<rparr>
     = Ready \<lparr>Config = \<lparr>Region = Some ''eu-west-1''\<rparr>, BuildHandlers = []\<rparr>"
proof -
  let ?bad = "\<lambda>s::Session. ('''', Some (ApiError ''timeout''))"
  let ?good = "\<lambda>s::Session. (''eu-west-1'', None :: go_error option)"
  let ?s1 = "\<lparr>Config = \<lparr>Region = Some ''us-east-1''\<rparr>, BuildHandlers = []\<rparr>"
  let ?s2 = "\<lparr>Config = \<lparr>Region = None\<rparr>, BuildHandlers = []\<rparr>"
  have h1: "?bad ?s1 = ('''', Some (ApiError ''timeout''))" by simp
  have h2: "?good ?s2 = (''eu-west-1'', None)" by simp
  have a: "withRegion ?bad ?s1 = Aborted ''failed to call the metadata server's region API'' (ApiError ''timeout'')"
    using withRegion_fatal_or_sets_region [of ?bad ?s1 "''''" "ApiError ''timeout''" "''v''"] h1 by blast
  have b: "withRegion ?good ?s2 = Ready (?s2\<lparr>Config := (Config ?s2)\<lparr>Region := Some ''eu-west-1''\<rparr>\<rparr>)"
    using withRegion_fatal_or_sets_region [of ?good ?s2 "''eu-west-1''" _ "''v''"] h2 by blast
  show ?thesis using a b by simp
qed

end
